theory Spec2Isabelle
  imports Complex_Main "HOL-Library.Multiset" "HOL-Library.Log_Nat"
begin

section \<open>Python values and exceptions\<close>

text \<open>
  Every exception the modelled code can raise is a constructor of \<open>error\<close>; a function
  that can raise returns \<open>error + 'a\<close> with \<open>Inl\<close> for the exception.
\<close>

text \<open>
  A message built by \<open>str.format\<close> is kept as the format string with its arguments,
  in the order given, rather than as the rendered text.
\<close>

datatype fmt = Str string | Num int | NoneArg | Format string "fmt list"

datatype error =
    ValueError fmt
  | NameError string
  | TypeError
  | StopIteration
  | IndexError
  | OverflowError
  | ZeroDivisionError
  | KeyError string
  | WorkerExecutionError fmt
  | Exception fmt

section \<open>Python numbers\<close>

text \<open>
  A sample is a Python \<open>int\<close>, of unbounded size, or a \<open>float\<close>, an IEEE 754
  double. A finite double is kept as the rational it denotes (the two zeros are one
  value); the other doubles are the two infinities and NaN.
\<close>

datatype pyfloat = Finite rat | PosInf | NegInf | NaN

text \<open>
  Rounding of a rational to the nearest double, ties to the even significand: 53
  significant bits, least exponent -1022 (below it the spacing stays \<open>2^-1074\<close>), and
  a result of \<open>2^1024\<close> or more overflows to an infinity. \<open>floor_log2 q\<close> is the
  binary exponent of a positive \<open>q\<close>.
\<close>

definition pow2 :: "int \<Rightarrow> rat" where
  "pow2 e = (if 0 \<le> e then 2 ^ nat e else 1 / 2 ^ nat (- e))"

definition floor_log2 :: "rat \<Rightarrow> int" where
  "floor_log2 q =
     (case quotient_of q of
        (n, d) \<Rightarrow> (let e = bitlen n - bitlen d in if pow2 e \<le> q then e else e - 1))"

definition round_half_even :: "rat \<Rightarrow> int" where
  "round_half_even m =
     (let f = \<lfloor>m\<rfloor>; d = m - of_int f
      in if d < 1 / 2 then f else if 1 / 2 < d then f + 1 else if even f then f else f + 1)"

definition round_double :: "rat \<Rightarrow> pyfloat" where
  "round_double q =
     (if q = 0 then Finite 0
      else (let a = \<bar>q\<bar>;
                e = max (floor_log2 a) (- 1022);
                ulp = pow2 (e - 52);
                r = of_int (round_half_even (a / ulp)) * ulp
            in if pow2 1024 \<le> r then (if 0 < q then PosInf else NegInf)
               else Finite (if 0 < q then r else - r)))"

datatype pynum = IntNum int | FloatNum pyfloat

text \<open>
  Arithmetic on doubles: the exact result, rounded; the special values follow IEEE 754,
  except that Python raises \<open>ZeroDivisionError\<close> on a zero divisor.
\<close>

fun fneg :: "pyfloat \<Rightarrow> pyfloat" where
  "fneg (Finite a) = Finite (- a)"
| "fneg PosInf = NegInf"
| "fneg NegInf = PosInf"
| "fneg NaN = NaN"

fun fadd :: "pyfloat \<Rightarrow> pyfloat \<Rightarrow> pyfloat" where
  "fadd (Finite a) (Finite b) = round_double (a + b)"
| "fadd NaN y = NaN"
| "fadd x NaN = NaN"
| "fadd PosInf NegInf = NaN"
| "fadd NegInf PosInf = NaN"
| "fadd PosInf y = PosInf"
| "fadd NegInf y = NegInf"
| "fadd x PosInf = PosInf"
| "fadd x NegInf = NegInf"

definition fsub :: "pyfloat \<Rightarrow> pyfloat \<Rightarrow> pyfloat" where
  "fsub x y = fadd x (fneg y)"

fun fsign :: "pyfloat \<Rightarrow> int" where
  "fsign (Finite a) = (if 0 < a then 1 else if a < 0 then - 1 else 0)"
| "fsign PosInf = 1"
| "fsign NegInf = - 1"
| "fsign NaN = 0"

fun fmul :: "pyfloat \<Rightarrow> pyfloat \<Rightarrow> pyfloat" where
  "fmul (Finite a) (Finite b) = round_double (a * b)"
| "fmul NaN y = NaN"
| "fmul x NaN = NaN"
| "fmul x y =
     (if fsign x * fsign y = 0 then NaN else if 0 < fsign x * fsign y then PosInf else NegInf)"

fun fdiv :: "pyfloat \<Rightarrow> pyfloat \<Rightarrow> error + pyfloat" where
  "fdiv (Finite a) (Finite b) =
     (if b = 0 then Inl ZeroDivisionError else Inr (round_double (a / b)))"
| "fdiv NaN (Finite b) = (if b = 0 then Inl ZeroDivisionError else Inr NaN)"
| "fdiv PosInf (Finite b) =
     (if b = 0 then Inl ZeroDivisionError else Inr (if 0 < b then PosInf else NegInf))"
| "fdiv NegInf (Finite b) =
     (if b = 0 then Inl ZeroDivisionError else Inr (if 0 < b then NegInf else PosInf))"
| "fdiv x NaN = Inr NaN"
| "fdiv (Finite a) y = Inr (Finite 0)"
| "fdiv x y = Inr NaN"

text \<open>
  Conversion of a number to a double, as \<open>float(x)\<close> and mixed arithmetic do it: an
  \<open>int\<close> is rounded, and raises \<open>OverflowError\<close> when it is too large for a double.
\<close>

fun to_double :: "pynum \<Rightarrow> error + pyfloat" where
  "to_double (IntNum n) =
     (case round_double (of_int n) of Finite r \<Rightarrow> Inr (Finite r) | _ \<Rightarrow> Inl OverflowError)"
| "to_double (FloatNum x) = Inr x"

definition float_op ::
  "(pyfloat \<Rightarrow> pyfloat \<Rightarrow> error + pyfloat) \<Rightarrow> pynum \<Rightarrow> pynum \<Rightarrow> error + pynum" where
  "float_op f v w =
     (case to_double v of
        Inl e \<Rightarrow> Inl e
      | Inr x \<Rightarrow>
          (case to_double w of
             Inl e \<Rightarrow> Inl e
           | Inr y \<Rightarrow> (case f x y of Inl e \<Rightarrow> Inl e | Inr z \<Rightarrow> Inr (FloatNum z))))"

text \<open>
  The operators \<open>+\<close>, \<open>-\<close>, \<open>*\<close>, \<open>/\<close> of Python 2: exact on two ints (\<open>/\<close>
  is the floor division there), and on doubles as soon as one operand is a float.
\<close>

fun py_add :: "pynum \<Rightarrow> pynum \<Rightarrow> error + pynum" where
  "py_add (IntNum a) (IntNum b) = Inr (IntNum (a + b))"
| "py_add v w = float_op (\<lambda>x y. Inr (fadd x y)) v w"

fun py_sub :: "pynum \<Rightarrow> pynum \<Rightarrow> error + pynum" where
  "py_sub (IntNum a) (IntNum b) = Inr (IntNum (a - b))"
| "py_sub v w = float_op (\<lambda>x y. Inr (fsub x y)) v w"

fun py_mul :: "pynum \<Rightarrow> pynum \<Rightarrow> error + pynum" where
  "py_mul (IntNum a) (IntNum b) = Inr (IntNum (a * b))"
| "py_mul v w = float_op (\<lambda>x y. Inr (fmul x y)) v w"

fun py_div :: "pynum \<Rightarrow> pynum \<Rightarrow> error + pynum" where
  "py_div (IntNum a) (IntNum b) =
     (if b = 0 then Inl ZeroDivisionError else Inr (IntNum (a div b)))"
| "py_div v w = float_op fdiv v w"

text \<open>
  \<open>a < b\<close>: false whenever an operand is NaN; an int and a float are compared by
  value. \<open>py_bool\<close> is the truth value of a number: false on zero only.
\<close>

fun fless :: "pyfloat \<Rightarrow> pyfloat \<Rightarrow> bool" where
  "fless (Finite a) (Finite b) = (a < b)"
| "fless NaN y = False"
| "fless x NaN = False"
| "fless x NegInf = False"
| "fless PosInf y = False"
| "fless x y = True"

fun py_less :: "pynum \<Rightarrow> pynum \<Rightarrow> bool" where
  "py_less (IntNum a) (IntNum b) = (a < b)"
| "py_less (IntNum a) (FloatNum y) = fless (Finite (of_int a)) y"
| "py_less (FloatNum x) (IntNum b) = fless x (Finite (of_int b))"
| "py_less (FloatNum x) (FloatNum y) = fless x y"

fun py_bool :: "pynum \<Rightarrow> bool" where
  "py_bool (IntNum a) = (a \<noteq> 0)"
| "py_bool (FloatNum (Finite a)) = (a \<noteq> 0)"
| "py_bool (FloatNum x) = True"


section \<open>Running statistics (pymsbayes/utils/stats.py)\<close>

record SampleSummarizer =
  ss_name :: string
  ss_min :: "pynum option"
  ss_max :: "pynum option"
  ss_n :: nat
  ss_sum :: pynum
  ss_sum_of_squares :: pynum

text \<open>
  \<open>SampleSummarizer.__init__\<close>.
\<close>

definition init_summarizer :: "string \<Rightarrow> SampleSummarizer" where
  "init_summarizer nm =
     \<lparr>ss_name = nm, ss_min = None, ss_max = None, ss_n = 0, ss_sum = IntNum 0,
      ss_sum_of_squares = IntNum 0\<rparr>"

text \<open>
  Python's \<open>not v\<close> for a value that is \<open>None\<close> or a number: true on \<open>None\<close> and on
  zero.
\<close>

definition py_not :: "pynum option \<Rightarrow> bool" where
  "py_not v = (case v of None \<Rightarrow> True | Some m \<Rightarrow> \<not> py_bool m)"

text \<open>
  \<open>add_sample\<close>: the counters are updated first, then the two \<open>if not ... elif\<close>
  chains for the minimum and the maximum. An addition can raise (an int too large for a
  double meets a float); the summarizer is returned as the statements before the raise
  left it.
\<close>

definition add_sample :: "SampleSummarizer \<Rightarrow> pynum \<Rightarrow> error option \<times> SampleSummarizer" where
  "add_sample s x =
     (let s1 = s\<lparr>ss_n := ss_n s + 1\<rparr>
      in case py_add (ss_sum s1) x of
           Inl e \<Rightarrow> (Some e, s1)
         | Inr t \<Rightarrow>
             (let s2 = s1\<lparr>ss_sum := t\<rparr>
              in case py_mul x x of
                   Inl e \<Rightarrow> (Some e, s2)
                 | Inr xx \<Rightarrow>
                     (case py_add (ss_sum_of_squares s2) xx of
                        Inl e \<Rightarrow> (Some e, s2)
                      | Inr u \<Rightarrow>
                          (None,
                           s2\<lparr>ss_sum_of_squares := u,
                              ss_min := (if py_not (ss_min s2) then Some x
                                         else (case ss_min s2 of
                                                 Some m \<Rightarrow> if py_less x m then Some x else Some m
                                               | None \<Rightarrow> Some x)),
                              ss_max := (if py_not (ss_max s2) then Some x
                                         else (case ss_max s2 of
                                                 Some m \<Rightarrow> if py_less m x then Some x else Some m
                                               | None \<Rightarrow> Some x))\<rparr>))))"

text \<open>
  \<open>update_samples\<close>: the \<open>for\<close> loop over the iterable, left at the first exception.
\<close>

fun update_samples :: "SampleSummarizer \<Rightarrow> pynum list \<Rightarrow> error option \<times> SampleSummarizer" where
  "update_samples s [] = (None, s)"
| "update_samples s (x # xs) =
     (case add_sample s x of
        (Some e, s1) \<Rightarrow> (Some e, s1)
      | (None, s1) \<Rightarrow> update_samples s1 xs)"

definition get_n :: "SampleSummarizer \<Rightarrow> nat" where
  "get_n s = ss_n s"

definition get_min :: "SampleSummarizer \<Rightarrow> pynum option" where
  "get_min s = ss_min s"

definition get_max :: "SampleSummarizer \<Rightarrow> pynum option" where
  "get_max s = ss_max s"

text \<open>
  \<open>float(v)\<close>.
\<close>

definition py_float :: "pynum \<Rightarrow> error + pynum" where
  "py_float v = (case to_double v of Inl e \<Rightarrow> Inl e | Inr x \<Rightarrow> Inr (FloatNum x))"

text \<open>
  \<open>_get_mean\<close>: \<open>None\<close> below one sample, else \<open>float(self._sum) / self._n\<close>.
\<close>

definition get_mean :: "SampleSummarizer \<Rightarrow> error + pynum option" where
  "get_mean s =
     (if ss_n s < 1 then Inr None
      else (case py_float (ss_sum s) of
              Inl e \<Rightarrow> Inl e
            | Inr f \<Rightarrow>
                (case py_div f (IntNum (int (ss_n s))) of
                   Inl e \<Rightarrow> Inl e
                 | Inr m \<Rightarrow> Inr (Some m))))"




text \<open>
  \<open>_get_pop_variance\<close>: as the variance, divided by \<open>self._n\<close>.
\<close>

definition get_pop_variance :: "SampleSummarizer \<Rightarrow> error + pynum option" where
  "get_pop_variance s =
     (if ss_n s < 1 then Inr None
      else (case get_mean s of
              Inl e \<Rightarrow> Inl e
            | Inr None \<Rightarrow> Inl TypeError
            | Inr (Some m) \<Rightarrow>
                (case py_mul m (ss_sum s) of
                   Inl e \<Rightarrow> Inl e
                 | Inr p \<Rightarrow>
                     (case py_sub (ss_sum_of_squares s) p of
                        Inl e \<Rightarrow> Inl e
                      | Inr d \<Rightarrow>
                          (case py_div d (IntNum (int (ss_n s))) of
                             Inl e \<Rightarrow> Inl e
                           | Inr v \<Rightarrow> Inr (Some v))))))"


section \<open>Python strings and regular expressions\<close>

text \<open>
  The part of Python's \<open>str\<close> and \<open>re\<close> that \<open>workers.py\<close> relies on. A file is the
  list of its lines, each without its line terminator.
\<close>

definition tab :: char where
  "tab = CHR 0x09"

definition newline :: char where
  "newline = CHR 0x0A"

text \<open>The whitespace of \<open>str.strip()\<close> and of \<open>\s\<close>: space, \<open>\t \n \v \f \r\<close>.\<close>

definition is_space :: "char \<Rightarrow> bool" where
  "is_space c = (c \<in> set [CHR '' '', CHR 0x09, CHR 0x0A, CHR 0x0B, CHR 0x0C, CHR 0x0D])"

definition is_digit :: "char \<Rightarrow> bool" where
  "is_digit c = (c \<in> set ''0123456789'')"

definition py_strip :: "string \<Rightarrow> string" where
  "py_strip s = rev (dropWhile is_space (rev (dropWhile is_space s)))"

text \<open>\<open>s.split(sep)\<close> for a one-character separator: the empty string gives one empty field.\<close>

fun py_split :: "char \<Rightarrow> string \<Rightarrow> string list" where
  "py_split sep [] = [[]]"
| "py_split sep (c # cs) =
     (if c = sep then [] # py_split sep cs
      else (case py_split sep cs of
              [] \<Rightarrow> [[c]]
            | w # ws \<Rightarrow> (c # w) # ws))"

fun py_join :: "string \<Rightarrow> string list \<Rightarrow> string" where
  "py_join sep [] = []"
| "py_join sep [w] = w"
| "py_join sep (w # ws) = w @ sep @ py_join sep ws"

text \<open>\<open>[l[i] for i in indices]\<close>: an index past the end raises \<open>IndexError\<close>.\<close>

fun select_columns :: "'a list \<Rightarrow> nat list \<Rightarrow> error + 'a list" where
  "select_columns l [] = Inr []"
| "select_columns l (i # is) =
     (if i < length l then
        (case select_columns l is of Inl e \<Rightarrow> Inl e | Inr vs \<Rightarrow> Inr (l ! i # vs))
      else Inl IndexError)"

text \<open>
  A compiled pattern is a sequence of atoms: a literal text, \<open>k*\<close> and \<open>k+\<close> for a
  character class \<open>k\<close> among \<open>\s\<close>, \<open>\S\<close>, \<open>\d\<close>, the negative lookahead
  \<open>(?!text)\<close>, and \<open>$\<close>. These are all the constructs of the pattern lists below.
\<close>

datatype char_class = Space | NonSpace | Digit

fun in_class :: "char_class \<Rightarrow> char \<Rightarrow> bool" where
  "in_class Space c = is_space c"
| "in_class NonSpace c = (\<not> is_space c)"
| "in_class Digit c = is_digit c"

datatype re_atom = Lits string | Star char_class | Plus char_class | NotAhead string | Eos

type_synonym regex = "re_atom list"

text \<open>
  \<open>regex.match(s)\<close> as a truth value: whether the pattern matches a prefix of \<open>s\<close>,
  trying every split of the text among the repetitions as the backtracking matcher does.
  \<open>$\<close> holds at the end of the text and before a final newline.
\<close>

fun re_match :: "regex \<Rightarrow> string \<Rightarrow> bool" where
  "re_match [] s = True"
| "re_match (Lits w # r) s =
     (take (length w) s = w \<and> re_match r (drop (length w) s))"
| "re_match (Star k # r) [] = re_match r []"
| "re_match (Star k # r) (c # cs) =
     (re_match r (c # cs) \<or> (in_class k c \<and> re_match (Star k # r) cs))"
| "re_match (Plus k # r) [] = False"
| "re_match (Plus k # r) (c # cs) = (in_class k c \<and> re_match (Star k # r) cs)"
| "re_match (NotAhead w # r) s = (take (length w) s \<noteq> w \<and> re_match r s)"
| "re_match (Eos # r) s = ((s = [] \<or> s = [newline]) \<and> re_match r s)"

section \<open>msBayes prior header patterns (pymsbayes/workers.py)\<close>

text \<open>\<open>\s*PRI\.(?!numTauClass)\S+\s*$\<close>\<close>

definition PARAMETER_PATTERNS :: "regex list" where
  "PARAMETER_PATTERNS =
     [[Star Space, Lits ''PRI.'', NotAhead ''numTauClass'', Plus NonSpace, Star Space, Eos]]"

text \<open>\<open>\s*pi\.\d+\s*\<close>, \<open>\s*wattTheta\.\d+\s*\<close>, \<open>\s*pi\.net\.\d+\s*\<close>,
  \<open>\s*tajD\.denom\.\d+\s*\<close>\<close>

definition DEFAULT_STAT_PATTERNS :: "regex list" where
  "DEFAULT_STAT_PATTERNS =
     [[Star Space, Lits ''pi.'', Plus Digit, Star Space],
      [Star Space, Lits ''wattTheta.'', Plus Digit, Star Space],
      [Star Space, Lits ''pi.net.'', Plus Digit, Star Space],
      [Star Space, Lits ''tajD.denom.'', Plus Digit, Star Space]]"

text \<open>\<open>\s*(?!PRI)\S+\s*$\<close>\<close>

definition ALL_STAT_PATTERNS :: "regex list" where
  "ALL_STAT_PATTERNS = [[Star Space, NotAhead ''PRI'', Plus NonSpace, Star Space, Eos]]"

text \<open>\<open>\s*PRI\.numTauClass\s*\<close>\<close>

definition DUMMY_PATTERNS :: "regex list" where
  "DUMMY_PATTERNS = [[Star Space, Lits ''PRI.numTauClass'', Star Space]]"


section \<open>Functions for manipulating prior files (pymsbayes/workers.py)\<close>

text \<open>
  \<open>parse_header\<close> with the default separator: the first line, stripped and split at
  tabs; \<open>next()\<close> on an empty file raises \<open>StopIteration\<close>.
\<close>

fun parse_header :: "string list \<Rightarrow> error + string list" where
  "parse_header [] = Inl StopIteration"
| "parse_header (l # ls) = Inr (py_split tab (py_strip l))"

text \<open>
  Modelled from the spec: \<open>get_indices_of_patterns\<close> of \<open>pymsbayes.utils.functions\<close>
  is imported by \<open>workers.py\<close> and is not among the sources. The spec has a category's
  rules select the columns whose name matches one of them, as positions in the header in
  ascending order.
\<close>

definition get_indices_of_patterns :: "string list \<Rightarrow> regex list \<Rightarrow> nat list" where
  "get_indices_of_patterns target_list regex_list =
     filter (\<lambda>i. list_ex (\<lambda>r. re_match r (target_list ! i)) regex_list)
       [0..<length target_list]"

text \<open>
  Modelled from the spec: \<open>reduce_columns\<close> of \<open>pymsbayes.utils.functions\<close> is
  imported by \<open>workers.py\<close> and is not among the sources. The spec's column projector
  emits, for every row, the requested columns in the order of the index list it is given,
  fails on the first row that lacks a requested index, and appends a trailing delimiter
  when asked to.
\<close>

fun reduce_columns :: "string list \<Rightarrow> nat list \<Rightarrow> bool \<Rightarrow> error + string list" where
  "reduce_columns [] column_indices extra_tab = Inr []"
| "reduce_columns (row # rows) column_indices extra_tab =
     (case select_columns (py_split tab row) column_indices of
        Inl e \<Rightarrow> Inl e
      | Inr cols \<Rightarrow>
          (case reduce_columns rows column_indices extra_tab of
             Inl e \<Rightarrow> Inl e
           | Inr out \<Rightarrow> Inr ((py_join [tab] cols @ (if extra_tab then [tab] else [])) # out)))"

definition get_parameter_indices :: "string list \<Rightarrow> regex list \<Rightarrow> nat list" where
  "get_parameter_indices header_list parameter_patterns =
     get_indices_of_patterns header_list parameter_patterns"

text \<open>An empty \<open>stat_patterns\<close> falls back on \<open>ALL_STAT_PATTERNS\<close>.\<close>

definition get_stat_indices :: "string list \<Rightarrow> regex list \<Rightarrow> nat list" where
  "get_stat_indices header_list stat_patterns =
     get_indices_of_patterns header_list
       (if stat_patterns = [] then ALL_STAT_PATTERNS else stat_patterns)"

definition get_dummy_indices :: "string list \<Rightarrow> regex list \<Rightarrow> nat list" where
  "get_dummy_indices header_list dummy_patterns =
     get_indices_of_patterns header_list dummy_patterns"

text \<open>
  The list \<open>indices\<close> that \<open>prior_for_msreject\<close> builds before sorting it: the parameter
  indices, extended by the stat indices, extended by the dummy indices, the last computed
  from the module constant \<open>DUMMY_PATTERNS\<close> whatever \<open>dummy_patterns\<close> is.
\<close>

definition msreject_indices ::
  "string list \<Rightarrow> regex list \<Rightarrow> regex list \<Rightarrow> regex list \<Rightarrow> nat list" where
  "msreject_indices header stat_patterns parameter_patterns dummy_patterns =
     get_parameter_indices header parameter_patterns
     @ get_stat_indices header stat_patterns
     @ get_dummy_indices header DUMMY_PATTERNS"

text \<open>
  \<open>prior_for_msreject\<close>, called on the path of the input file as \<open>_post_process\<close> does.
  The result is the pair of the lines written to \<open>out_file\<close> and the returned header
  list. Without \<open>include_header\<close> the first line is skipped before the projection.
\<close>

definition prior_for_msreject ::
  "string list \<Rightarrow> regex list \<Rightarrow> regex list \<Rightarrow> regex list \<Rightarrow> bool
     \<Rightarrow> error + (string list \<times> string list)" where
  "prior_for_msreject in_file stat_patterns parameter_patterns dummy_patterns include_header =
     (case parse_header in_file of
        Inl e \<Rightarrow> Inl e
      | Inr header \<Rightarrow>
          (let indices = msreject_indices header stat_patterns parameter_patterns dummy_patterns
           in case (if \<not> include_header
                    then (case in_file of [] \<Rightarrow> Inl StopIteration | l # ls \<Rightarrow> Inr ls)
                    else Inr in_file) of
                Inl e \<Rightarrow> Inl e
              | Inr rows \<Rightarrow>
                  (case reduce_columns rows (sort indices) True of
                     Inl e \<Rightarrow> Inl e
                   | Inr out \<Rightarrow>
                       (case select_columns header (sort indices) of
                          Inl e \<Rightarrow> Inl e
                        | Inr names \<Rightarrow> Inr (out, names)))))"

section \<open>The module namespace of workers.py\<close>

text \<open>
  A bare name in a function body that is not local to it is looked up among the globals
  of the module and then among the builtins; a name bound in neither raises
  \<open>NameError\<close>. The globals of \<open>workers.py\<close> are its imports, its module-level
  assignments, functions and classes, and the loop variables of its \<open>__main__\<close> block.
\<close>

definition workers_module_names :: "string list" where
  "workers_module_names =
     [''__name__'', ''__doc__'', ''__file__'', ''__package__'', ''__builtins__'',
      ''os'', ''sys'', ''re'', ''multiprocessing'', ''subprocess'', ''time'', ''shutil'',
      ''traceback'', ''StringIO'', ''TempFileSystem'', ''BIN_DIR'', ''get_random_int'',
      ''expand_path'', ''get_indices_of_patterns'', ''reduce_columns'', ''process_file_arg'',
      ''WorkerExecutionError'', ''get_logger'', ''_LOG'', ''_LOCK'',
      ''PARAMETER_PATTERNS'', ''DEFAULT_STAT_PATTERNS'', ''ALL_STAT_PATTERNS'',
      ''DUMMY_PATTERNS'', ''MODEL_PATTERNS'', ''TAU_PATTERNS'', ''D_THETA_PATTERNS'',
      ''A_THETA_PATTERNS'', ''PSI_PATTERNS'', ''MEAN_TAU_PATTERNS'', ''OMEGA_PATTERNS'',
      ''HEADER_PATTERN'', ''parse_header'', ''get_parameter_indices'', ''get_stat_indices'',
      ''get_dummy_indices'', ''observed_stats_for_abctoolbox'',
      ''observed_parameters_for_abctoolbox'', ''prior_for_abctoolbox'',
      ''prior_for_msreject'', ''Worker'', ''MsBayesWorker'', ''MsRejectWorker'',
      ''jobs'', ''i'', ''p'', ''j'']"

text \<open>The builtins of Python 2.7.\<close>

definition python_builtins :: "string list" where
  "python_builtins =
     [''ArithmeticError'', ''AssertionError'', ''AttributeError'', ''BaseException'',
      ''BufferError'', ''BytesWarning'', ''DeprecationWarning'', ''EOFError'', ''Ellipsis'',
      ''EnvironmentError'', ''Exception'', ''False'', ''FloatingPointError'',
      ''FutureWarning'', ''GeneratorExit'', ''IOError'', ''ImportError'', ''ImportWarning'',
      ''IndentationError'', ''IndexError'', ''KeyError'', ''KeyboardInterrupt'',
      ''LookupError'', ''MemoryError'', ''NameError'', ''None'', ''NotImplemented'',
      ''NotImplementedError'', ''OSError'', ''OverflowError'',
      ''PendingDeprecationWarning'', ''ReferenceError'', ''RuntimeError'',
      ''RuntimeWarning'', ''StandardError'', ''StopIteration'', ''SyntaxError'',
      ''SyntaxWarning'', ''SystemError'', ''SystemExit'', ''TabError'', ''True'',
      ''TypeError'', ''UnboundLocalError'', ''UnicodeDecodeError'', ''UnicodeEncodeError'',
      ''UnicodeError'', ''UnicodeTranslateError'', ''UnicodeWarning'', ''UserWarning'',
      ''ValueError'', ''Warning'', ''ZeroDivisionError'', ''__debug__'', ''__import__'',
      ''abs'', ''all'', ''any'', ''apply'', ''basestring'', ''bin'', ''bool'', ''buffer'',
      ''bytearray'', ''bytes'', ''callable'', ''chr'', ''classmethod'', ''cmp'', ''coerce'',
      ''compile'', ''complex'', ''copyright'', ''credits'', ''delattr'', ''dict'', ''dir'',
      ''divmod'', ''enumerate'', ''eval'', ''execfile'', ''exit'', ''file'', ''filter'',
      ''float'', ''format'', ''frozenset'', ''getattr'', ''globals'', ''hasattr'', ''hash'',
      ''help'', ''hex'', ''id'', ''input'', ''int'', ''intern'', ''isinstance'',
      ''issubclass'', ''iter'', ''len'', ''license'', ''list'', ''locals'', ''long'', ''map'',
      ''max'', ''memoryview'', ''min'', ''next'', ''object'', ''oct'', ''open'', ''ord'',
      ''pow'', ''print'', ''property'', ''quit'', ''range'', ''raw_input'', ''reduce'',
      ''reload'', ''repr'', ''reversed'', ''round'', ''set'', ''setattr'', ''slice'',
      ''sorted'', ''staticmethod'', ''str'', ''sum'', ''super'', ''tuple'', ''type'',
      ''unichr'', ''unicode'', ''vars'', ''xrange'', ''zip'']"

datatype pyobject = PyNone | PyStr string | PyInt int | TempFileSystem string | Global string

definition lookup_global :: "string \<Rightarrow> error + pyobject" where
  "lookup_global nm =
     (if nm \<in> set workers_module_names \<or> nm \<in> set python_builtins then Inr (Global nm)
      else Inl (NameError nm))"

section \<open>The base class of all workers (pymsbayes/workers.py)\<close>

text \<open>A result message is a dictionary from keys to integers; the queue is first in, first out.\<close>

type_synonym message = "(string \<times> int) list"

record Worker =
  name :: string
  pid :: "int option"
  temp_fs :: pyobject
  log_sink :: "(string \<times> fmt) list"
  queue :: "message list"
  stdout_path :: "string option"
  stderr_path :: "string option"
  cmd :: "string list"
  finished :: bool
  subprocess_exit_code :: "int option"

text \<open>
  The keyword arguments that \<open>Worker.__init__\<close> reads; \<open>None\<close> is an absent key. The
  class attributes \<open>total\<close> and \<open>count\<close> are state shared by all instances.
\<close>

record kwargs =
  kw_temp_fs :: "pyobject option"
  kw_queue :: "message list option"
  kw_stdout_path :: "string option"
  kw_stderr_path :: "string option"

record class_attrs =
  cls_total :: nat
  cls_count :: nat

text \<open>
  \<open>Worker.__init__\<close>. The counter is incremented before the check of \<open>temp_fs\<close>.
  \<open>process_name\<close> is the name \<open>multiprocessing.Process.__init__\<close> gives the process.
\<close>

definition Worker_init ::
  "kwargs \<Rightarrow> string \<Rightarrow> class_attrs \<Rightarrow> (error + Worker) \<times> class_attrs" where
  "Worker_init kw process_name cls =
     (let cls1 = cls\<lparr>cls_total := cls_total cls + 1\<rparr>
      in case kw_temp_fs kw of
           Some (TempFileSystem d) \<Rightarrow>
             (Inr \<lparr>name = process_name, pid = None, temp_fs = TempFileSystem d,
                   log_sink = [],
                   queue = (case kw_queue kw of None \<Rightarrow> [] | Some q \<Rightarrow> q),
                   stdout_path = kw_stdout_path kw, stderr_path = kw_stderr_path kw,
                   cmd = [], finished = False, subprocess_exit_code = None\<rparr>, cls1)
         | _ \<Rightarrow>
             (Inl (ValueError (Str ''All workers require a TempFileSystem at initiation'')),
              cls1))"

definition pid_arg :: "int option \<Rightarrow> fmt" where
  "pid_arg v = (case v of None \<Rightarrow> NoneArg | Some n \<Rightarrow> Num n)"

text \<open>\<open>send_msg\<close> hands the formatted message to the method \<open>method_str\<close> of the log.\<close>

definition send_msg :: "'a Worker_scheme \<Rightarrow> fmt \<Rightarrow> string \<Rightarrow> 'a Worker_scheme" where
  "send_msg w msg method_str =
     w\<lparr>log_sink := log_sink w
          @ [(method_str, Format ''{0} ({1}): {2}'' [Str (name w), pid_arg (pid w), msg])]\<rparr>"

definition send_info :: "'a Worker_scheme \<Rightarrow> fmt \<Rightarrow> 'a Worker_scheme" where
  "send_info w msg = send_msg w msg ''info''"

definition send_error :: "'a Worker_scheme \<Rightarrow> fmt \<Rightarrow> 'a Worker_scheme" where
  "send_error w msg = send_msg w msg ''error''"

text \<open>The hooks \<open>_post_process\<close> and \<open>_finish\<close> of the base class are \<open>pass\<close>.\<close>

definition post_process :: "Worker \<Rightarrow> Worker" where
  "post_process w = w"


text \<open>
  What the external process did: its exit code and what it wrote on its two streams.
  \<open>run\<close> reads the error stream back from \<open>stderr_path\<close> when one is set and from the
  pipe otherwise.
\<close>

record proc_result =
  exit_code :: int
  stdout_data :: string
  stderr_data :: string

text \<open>
  \<open>Worker.run\<close>. The result is the exception raised, if any, with the worker as the
  method leaves it. On a non-zero exit code the statement \<open>send_error('execution
  failed')\<close> is reached first; it names \<open>send_error\<close> bare, not as a method of
  \<open>self\<close>, so the name is looked up as a global. The \<open>try\<close> around \<open>_post_process\<close>
  has nothing to catch in the base class.
\<close>

definition run :: "Worker \<Rightarrow> proc_result \<Rightarrow> error option \<times> Worker" where
  "run w p =
     (let w1 = send_info w
                 (Format (''Starting process with following command:'' @ [newline, tab] @ ''{0}'')
                    [Str (py_join '' '' (cmd w))])
      in if exit_code p \<noteq> 0 then
           (case lookup_global ''send_error'' of
              Inl e \<Rightarrow> (Some e, w1)
            | Inr f \<Rightarrow>
                (Some (WorkerExecutionError
                         (Format (''{0} ({1}) failed. stderr:'' @ [newline] @ ''{2}'')
                            [Str (name w1), pid_arg (pid w1), Str (stderr_data p)])), w1))
         else
           (let w2 = w1\<lparr>queue := queue w1 @ [[(''exit_code'', exit_code p)]]\<rparr>
            in (None, post_process w2)))"


section \<open>MsRejectWorker (pymsbayes/workers.py)\<close>

record MsRejectWorker = Worker +
  exe_path :: pyobject
  prior_path :: pyobject
  out_path :: pyobject
  tolerance :: pyobject
  stats :: pyobject
  kill_received :: bool

text \<open>\<open>str(n)\<close> for a natural number.\<close>

function str_nat :: "nat \<Rightarrow> string" where
  "str_nat n =
     (if n < 10 then [''0123456789'' ! n]
      else str_nat (n div 10) @ [''0123456789'' ! (n mod 10)])"
  by pat_completeness auto
termination
  by (relation "measure id") auto

text \<open>
  \<open>MsRejectWorker.__init__\<close>: the base initialiser, the instance counter and the name,
  then \<open>self.exe_path = e\<close>, where \<open>e\<close> is neither a parameter nor a local and so is
  looked up as a global.
\<close>

definition MsRejectWorker_init ::
  "pyobject \<Rightarrow> pyobject \<Rightarrow> pyobject \<Rightarrow> pyobject \<Rightarrow> pyobject \<Rightarrow> kwargs \<Rightarrow> string
     \<Rightarrow> class_attrs \<Rightarrow> (error + MsRejectWorker) \<times> class_attrs" where
  "MsRejectWorker_init exe_path_arg prior_path_arg out_path_arg tolerance_arg stats_arg kw
       process_name cls =
     (case Worker_init kw process_name cls of
        (Inl err, cls1) \<Rightarrow> (Inl err, cls1)
      | (Inr w, cls1) \<Rightarrow>
          (let cls2 = cls1\<lparr>cls_count := cls_count cls1 + 1\<rparr>;
               w1 = w\<lparr>name := ''MsRejectWorker-'' @ str_nat (cls_count cls2)\<rparr>
           in case lookup_global ''e'' of
                Inl err \<Rightarrow> (Inl err, cls2)
              | Inr v \<Rightarrow>
                  (Inr (Worker.extend w1
                          (MsRejectWorker.fields v prior_path_arg out_path_arg tolerance_arg
                             stats_arg False)), cls2)))"

section \<open>Merging the simulated observed data (scripts/dmc.py)\<close>

text \<open>
  The last loop of the simulation branch of \<open>main_cli\<close>. For each observed config, in
  order, the prior files of its workers are merged into its observed path, the data rows
  of the merged file are counted, and a count other than \<open>args.reps\<close> raises.
  \<open>merge_prior_files\<close> and \<open>line_count\<close> are imported by \<open>dmc.py\<close> from modules that
  are not among the sources; they are the parameters \<open>mpf\<close>, acting on the file system,
  and \<open>lc\<close>, the count with \<open>ignore_headers=True\<close>. An entry of the list is an observed
  config with the prior paths of its workers and its observed path.
\<close>

fun merge_simulated_observed ::
  "(string list \<Rightarrow> string \<Rightarrow> 'fs \<Rightarrow> 'fs) \<Rightarrow> (string \<Rightarrow> 'fs \<Rightarrow> int) \<Rightarrow> int
     \<Rightarrow> (string \<times> string list \<times> string) list \<Rightarrow> 'fs \<Rightarrow> error + 'fs" where
  "merge_simulated_observed mpf lc reps [] fs = Inr fs"
| "merge_simulated_observed mpf lc reps ((cfg, prior_paths, observed_path) # rest) fs =
     (let fs1 = mpf prior_paths observed_path fs;
          n = lc observed_path fs1
      in if n \<noteq> reps then
           Inl (Exception
                  (Format (''The number of observed simulations ({0}) generated for ''
                           @ ''observed config {1!r} and output to file {2!r} does not ''
                           @ ''match the number of reps ({3})'')
                     [Num n, Str cfg, Str observed_path, Num reps]))
         else merge_simulated_observed mpf lc reps rest fs1)"

text \<open>
  The file system after all the merges of a list of observed configs, and the data-row
  counts of the merged files, each taken right after its merge.
\<close>

fun merged_through ::
  "(string list \<Rightarrow> string \<Rightarrow> 'fs \<Rightarrow> 'fs) \<Rightarrow> (string \<times> string list \<times> string) list
     \<Rightarrow> 'fs \<Rightarrow> 'fs" where
  "merged_through mpf [] fs = fs"
| "merged_through mpf ((cfg, prior_paths, observed_path) # rest) fs =
     merged_through mpf rest (mpf prior_paths observed_path fs)"

fun merged_counts ::
  "(string list \<Rightarrow> string \<Rightarrow> 'fs \<Rightarrow> 'fs) \<Rightarrow> (string \<Rightarrow> 'fs \<Rightarrow> int)
     \<Rightarrow> (string \<times> string list \<times> string) list \<Rightarrow> 'fs \<Rightarrow> int list" where
  "merged_counts mpf lc [] fs = []"
| "merged_counts mpf lc ((cfg, prior_paths, observed_path) # rest) fs =
     lc observed_path (mpf prior_paths observed_path fs)
     # merged_counts mpf lc rest (mpf prior_paths observed_path fs)"

section \<open>The worker pool\<close>

text \<open>
  Modelled from the spec: \<open>Manager.run_workers\<close> of \<open>pymsbayes.manager\<close> is imported by
  \<open>dmc.py\<close> and is not among the sources. The spec's pool keeps a live set bounded by
  \<open>maxParallel\<close>, admits the next queued worker whenever a slot is free, and is done
  once no worker is queued or live. A live worker leaves the live set by completing or
  by raising; which live worker does so next is the environment's choice, given here as
  a list of events. An event that is not enabled cannot happen (\<open>None\<close>).
\<close>

record 'w pool =
  waiting :: "'w list"
  live :: "'w list"
  completed :: "'w list"
  raised :: "'w list"

datatype 'w pool_event = Admit | Completes 'w | Raises 'w

definition run_workers_init :: "'w list \<Rightarrow> 'w pool" where
  "run_workers_init workers = \<lparr>waiting = workers, live = [], completed = [], raised = []\<rparr>"

fun pool_step :: "nat \<Rightarrow> 'w pool \<Rightarrow> 'w pool_event \<Rightarrow> 'w pool option" where
  "pool_step max_parallel p Admit =
     (case waiting p of
        [] \<Rightarrow> None
      | w # ws \<Rightarrow>
          if length (live p) < max_parallel
          then Some (p\<lparr>waiting := ws, live := live p @ [w]\<rparr>)
          else None)"
| "pool_step max_parallel p (Completes w) =
     (if w \<in> set (live p)
      then Some (p\<lparr>live := remove1 w (live p), completed := completed p @ [w]\<rparr>)
      else None)"
| "pool_step max_parallel p (Raises w) =
     (if w \<in> set (live p)
      then Some (p\<lparr>live := remove1 w (live p), raised := raised p @ [w]\<rparr>)
      else None)"

fun pool_run :: "nat \<Rightarrow> 'w pool \<Rightarrow> 'w pool_event list \<Rightarrow> 'w pool option" where
  "pool_run max_parallel p [] = Some p"
| "pool_run max_parallel p (ev # evs) =
     (case pool_step max_parallel p ev of
        None \<Rightarrow> None
      | Some p1 \<Rightarrow> pool_run max_parallel p1 evs)"

definition returned :: "'w pool \<Rightarrow> bool" where
  "returned p = (waiting p = [] \<and> live p = [])"

section \<open>Properties of the rounding to a double\<close>

lemma pow2_powi: "pow2 e = 2 powi e"
  by (simp add: pow2_def power_int_def field_simps)

lemma pow2_pos: "0 < pow2 e"
  by (simp add: pow2_powi)

lemma pow2_add: "pow2 (a + b) = pow2 a * pow2 b"
  by (simp add: pow2_powi power_int_add)

lemma pow2_nat: "0 \<le> e \<Longrightarrow> pow2 e = of_int (2 ^ nat e)"
  by (simp add: pow2_def)

lemma pow2_mono: "a \<le> b \<Longrightarrow> pow2 a \<le> pow2 b"
  by (simp add: pow2_powi power_int_increasing)

lemma pow2_strict_mono: "a < b \<Longrightarrow> pow2 a < pow2 b"
  by (simp add: pow2_powi power_int_strict_increasing)

lemma pow2_less_iff: "pow2 a < pow2 b \<longleftrightarrow> a < b"
  by (metis pow2_mono pow2_strict_mono linorder_not_less)

lemma floor_log2_bounds:
  assumes "0 < q"
  shows "pow2 (floor_log2 q) \<le> q \<and> q < pow2 (floor_log2 q + 1)"
proof -
  obtain n d where nd: "quotient_of q = (n, d)"
    by (cases "quotient_of q") auto
  then have d: "0 < d" and q: "q = of_int n / of_int d"
    by (simp_all add: quotient_of_denom_pos quotient_of_div)
  from assms q d have n: "0 < n"
    by (simp add: zero_less_divide_iff)
  define e where "e = bitlen n - bitlen d"
  have bn: "0 < bitlen n" and bd: "0 < bitlen d"
    using n d bitlen_eq_zero_iff [of n] bitlen_eq_zero_iff [of d] bitlen_nonneg [of n]
      bitlen_nonneg [of d] by linarith+
  from bitlen_bounds [OF n] have n1: "pow2 (bitlen n - 1) \<le> of_int n"
    and n2: "of_int n < pow2 (bitlen n)"
    using bn by (simp_all add: pow2_nat del: of_int_power)
  from bitlen_bounds [OF d] have d1: "pow2 (bitlen d - 1) \<le> of_int d"
    and d2: "of_int d < pow2 (bitlen d)"
    using bd by (simp_all add: pow2_nat del: of_int_power)
  have dpos: "(0 :: rat) < of_int d"
    using d by simp
  have up: "q < pow2 (e + 1)"
  proof -
    have "of_int n < pow2 (e + 1) * pow2 (bitlen d - 1)"
      using n2 by (simp add: pow2_add [symmetric] e_def)
    also have "\<dots> \<le> pow2 (e + 1) * of_int d"
      using d1 pow2_pos [of "e + 1"] by simp
    finally show ?thesis
      using dpos by (simp add: q pos_divide_less_eq)
  qed
  have lo: "pow2 (e - 1) \<le> q"
  proof -
    have "pow2 (e - 1) * of_int d \<le> pow2 (e - 1) * pow2 (bitlen d)"
      using d2 pow2_pos [of "e - 1"] by simp
    also have "\<dots> = pow2 (bitlen n - 1)"
      by (simp add: pow2_add [symmetric] e_def)
    also have "\<dots> \<le> of_int n"
      by (rule n1)
    finally show ?thesis
      using dpos by (simp add: q pos_le_divide_eq)
  qed
  have fl: "floor_log2 q = (if pow2 e \<le> q then e else e - 1)"
    by (simp add: floor_log2_def nd e_def Let_def)
  show ?thesis
  proof (cases "pow2 e \<le> q")
    case True
    with fl up show ?thesis by simp
  next
    case False
    with fl lo show ?thesis by simp
  qed
qed

lemma floor_log2_unique:
  assumes "pow2 e \<le> q" and "q < pow2 (e + 1)"
  shows "floor_log2 q = e"
proof -
  have "0 < q"
    using assms(1) pow2_pos [of e] by simp
  from floor_log2_bounds [OF this] have a: "pow2 (floor_log2 q) \<le> q"
    and b: "q < pow2 (floor_log2 q + 1)"
    by simp_all
  from a assms(2) have "pow2 (floor_log2 q) < pow2 (e + 1)"
    by simp
  then have 1: "floor_log2 q < e + 1"
    by (simp add: pow2_less_iff)
  from assms(1) b have "pow2 e < pow2 (floor_log2 q + 1)"
    by simp
  then have 2: "e < floor_log2 q + 1"
    by (simp add: pow2_less_iff)
  from 1 2 show ?thesis by simp
qed

lemma round_half_even_of_int: "round_half_even (of_int j) = j"
  by (simp add: round_half_even_def)


lemma pow2_diff: "pow2 (a - b) = pow2 a / pow2 b"
  by (simp add: pow2_powi power_int_diff)

lemma pow2_53: "pow2 53 = 2 ^ 53"
  by (simp add: pow2_def)

lemma round_double_representable:
  fixes k t :: int
  assumes k: "0 < k" "k \<le> 2 ^ 53" and t: "- 1074 \<le> t"
    and a: "a = of_int k * pow2 t" and lt: "a < pow2 1024"
  shows "round_double a = Finite a"
proof -
  have apos: "0 < a"
    using k(1) pow2_pos [of t] by (simp add: a)
  define e where "e = floor_log2 a"
  define e' where "e' = max e (- 1022)"
  from floor_log2_bounds [OF apos] have lo: "pow2 e \<le> a" and hi: "a < pow2 (e + 1)"
    by (simp_all add: e_def)
  have kr: "(of_int k :: rat) \<le> 2 ^ 53"
    using k(2) by (metis of_int_le_iff of_int_numeral of_int_power)
  have "a \<le> 2 ^ 53 * pow2 t"
    using kr pow2_pos [of t] by (simp add: a)
  also have "\<dots> = pow2 (t + 53)"
    by (simp add: pow2_add pow2_53)
  finally have ale: "a \<le> pow2 (t + 53)" .
  with lo have "pow2 e \<le> pow2 (t + 53)"
    by simp
  then have e_le: "e \<le> t + 53"
    using pow2_less_iff [of "t + 53" e] by (simp add: not_less [symmetric])
  have "\<exists>j. a / pow2 (e' - 52) = of_int j"
  proof (cases "e' - 52 \<le> t")
    case True
    have "a / pow2 (e' - 52) = of_int k * pow2 (t - (e' - 52))"
      using pow2_diff [of t "e' - 52"] by (simp add: a)
    also have "\<dots> = of_int (k * 2 ^ nat (t - (e' - 52)))"
      using True by (simp add: pow2_nat)
    finally show ?thesis by blast
  next
    case False
    with t have e'e: "e' = e" and "t + 53 \<le> e"
      by (simp_all add: e'_def max_def split: if_splits)
    with e_le have e: "e = t + 53"
      by simp
    from lo ale have "a = pow2 (t + 53)"
      by (simp add: e)
    then have "a / pow2 (e' - 52) = pow2 ((t + 53) - (e' - 52))"
      using pow2_diff [of "t + 53" "e' - 52"] by simp
    also have "\<dots> = of_int (2 ^ 52)"
      by (simp add: e'e e pow2_def)
    finally show ?thesis by blast
  qed
  then obtain j where j: "a / pow2 (e' - 52) = of_int j"
    by blast
  have ja: "of_int j * pow2 (e' - 52) = a"
    using j pow2_pos [of "e' - 52"] by (simp add: field_simps)
  have "round_half_even (a / pow2 (e' - 52)) = j"
    by (simp only: j round_half_even_of_int)
  then have r: "of_int (round_half_even (a / pow2 (e' - 52))) * pow2 (e' - 52) = a"
    by (simp only: ja)
  have unf: "round_double a =
      (if pow2 1024 \<le> of_int (round_half_even (a / pow2 (e' - 52))) * pow2 (e' - 52)
       then PosInf
       else Finite (of_int (round_half_even (a / pow2 (e' - 52))) * pow2 (e' - 52)))"
    using apos by (simp add: round_double_def Let_def e_def e'_def)
  show ?thesis
    using lt by (simp only: unf r) simp
qed

lemma round_double_0: "round_double 0 = Finite 0"
  by (simp add: round_double_def)

lemma round_double_minus: "round_double (- q) = fneg (round_double q)"
  by (cases "q = 0"; cases "0 < q") (auto simp add: round_double_def Let_def)

lemma round_double_of_int:
  assumes "\<bar>k\<bar> \<le> 2 ^ 53"
  shows "round_double (of_int k) = Finite (of_int k)"
proof -
  have pos: "round_double (of_int j) = Finite (of_int j)" if "0 < j" "j \<le> 2 ^ 53" for j :: int
  proof (rule round_double_representable [OF that, of 0])
    show "rat_of_int j = of_int j * pow2 0"
      by (simp add: pow2_def)
    have "rat_of_int j \<le> 2 ^ 53"
      using that(2) by (metis of_int_le_iff of_int_numeral of_int_power)
    also have "\<dots> < pow2 1024"
      by (simp add: pow2_def)
    finally show "rat_of_int j < pow2 1024" .
  qed simp
  consider "k = 0" | "0 < k" | "k < 0" by linarith
  then show ?thesis
  proof cases
    case 1
    then show ?thesis by (simp add: round_double_0)
  next
    case 2
    with assms show ?thesis by (simp add: pos)
  next
    case 3
    with assms have "round_double (of_int (- k)) = Finite (of_int (- k))"
      by (intro pos) simp_all
    then show ?thesis
      using round_double_minus [of "of_int k"] by (cases "round_double (of_int k)") simp_all
  qed
qed

lemma round_half_even_bounds: "of_int (round_half_even m) \<le> m + 1 \<and> \<lfloor>m\<rfloor> \<le> round_half_even m"
  by (simp add: round_half_even_def Let_def) linarith

lemma round_half_even_le:
  assumes "m \<le> of_int b"
  shows "round_half_even m \<le> b"
proof -
  have "round_half_even m \<le> \<lceil>m\<rceil>"
    by (simp add: round_half_even_def Let_def ceiling_altdef)
  also have "\<dots> \<le> b"
    using assms by (simp add: ceiling_le_iff)
  finally show ?thesis .
qed

text \<open>The shape of a finite rounding result.\<close>

lemma round_double_shape:
  assumes "q \<noteq> 0"
  shows "\<exists>j t. 0 \<le> j \<and> j \<le> 2 ^ 53 \<and> - 1074 \<le> t
           \<and> round_double q =
               (if pow2 1024 \<le> of_int j * pow2 t then (if 0 < q then PosInf else NegInf)
                else Finite (if 0 < q then of_int j * pow2 t else - (of_int j * pow2 t)))"
proof -
  define a where "a = \<bar>q\<bar>"
  define e where "e = max (floor_log2 a) (- 1022)"
  define j where "j = round_half_even (a / pow2 (e - 52))"
  have apos: "0 < a"
    using assms by (simp add: a_def)
  from floor_log2_bounds [OF apos] have "a < pow2 (floor_log2 a + 1)"
    by simp
  also have "\<dots> \<le> pow2 (e + 1)"
    by (rule pow2_mono) (simp add: e_def)
  finally have "a < pow2 (e + 1)" .
  then have "a / pow2 (e - 52) < pow2 (e + 1) / pow2 (e - 52)"
    using pow2_pos [of "e - 52"] by (simp add: divide_strict_right_mono)
  also have "\<dots> = pow2 53"
    using pow2_diff [of "e + 1" "e - 52"] by simp
  finally have "a / pow2 (e - 52) \<le> of_int (2 ^ 53)"
    by (simp add: pow2_53)
  then have j_le: "j \<le> 2 ^ 53"
    unfolding j_def by (rule round_half_even_le)
  have "0 \<le> a / pow2 (e - 52)"
    using apos pow2_pos [of "e - 52"] by simp
  then have "0 \<le> \<lfloor>a / pow2 (e - 52)\<rfloor>"
    by simp
  also have "\<dots> \<le> j"
    using round_half_even_bounds [of "a / pow2 (e - 52)"] by (simp add: j_def)
  finally have j_ge: "0 \<le> j" .
  have t: "- 1074 \<le> e - 52"
    by (simp add: e_def)
  have "round_double q =
      (if pow2 1024 \<le> of_int j * pow2 (e - 52) then (if 0 < q then PosInf else NegInf)
       else Finite (if 0 < q then of_int j * pow2 (e - 52) else - (of_int j * pow2 (e - 52))))"
    using assms by (simp add: round_double_def Let_def a_def e_def j_def)
  with j_ge j_le t show ?thesis by blast
qed

lemma round_double_idem:
  assumes "round_double q = Finite r"
  shows "round_double r = Finite r"
proof (cases "q = 0")
  case True
  with assms show ?thesis by (simp add: round_double_0)
next
  case False
  from round_double_shape [OF False] obtain j t where j: "0 \<le> j" "j \<le> 2 ^ 53"
    and t: "- 1074 \<le> t"
    and rd: "round_double q =
               (if pow2 1024 \<le> of_int j * pow2 t then (if 0 < q then PosInf else NegInf)
                else Finite (if 0 < q then of_int j * pow2 t else - (of_int j * pow2 t)))"
    by blast
  from assms rd have fin: "of_int j * pow2 t < pow2 1024"
    and r: "r = (if 0 < q then of_int j * pow2 t else - (of_int j * pow2 t))"
    by (auto split: if_splits)
  show ?thesis
  proof (cases "j = 0")
    case True
    with r show ?thesis by (simp add: round_double_0)
  next
    case jnz: False
    with j(1) have "0 < j" by simp
    from round_double_representable [OF this j(2) t refl fin]
    have p: "round_double (of_int j * pow2 t) = Finite (of_int j * pow2 t)" .
    show ?thesis
    proof (cases "0 < q")
      case True
      with r p show ?thesis by simp
    next
      case False
      with r p show ?thesis
        using round_double_minus [of "of_int j * pow2 t"] by simp
    qed
  qed
qed



lemma round_double_not_NaN: "round_double q \<noteq> NaN"
  by (simp add: round_double_def Let_def)

lemma round_double_square_not_NegInf: "round_double (q * q) \<noteq> NegInf"
  by (cases "q = 0") (auto simp add: round_double_def Let_def zero_less_mult_iff neq_iff)

lemma round_double_overflow:
  assumes "pow2 1024 \<le> q"
  shows "round_double q = PosInf"
proof -
  have qpos: "0 < q"
    using assms pow2_pos [of 1024] by simp
  define e where "e = floor_log2 q"
  from floor_log2_bounds [OF qpos] have lo: "pow2 e \<le> q" and hi: "q < pow2 (e + 1)"
    by (simp_all add: e_def)
  from assms hi have "pow2 1024 < pow2 (e + 1)"
    by simp
  then have e: "1024 \<le> e"
    by (simp add: pow2_less_iff)
  then have e': "max e (- 1022) = e"
    by simp
  have "pow2 52 = pow2 e / pow2 (e - 52)"
    using pow2_diff [of e "e - 52"] by simp
  also have "\<dots> \<le> q / pow2 (e - 52)"
    using lo pow2_pos [of "e - 52"] by (simp add: divide_right_mono)
  finally have "of_int (2 ^ 52) \<le> q / pow2 (e - 52)"
    by (simp add: pow2_def)
  then have "2 ^ 52 \<le> \<lfloor>q / pow2 (e - 52)\<rfloor>"
    by (simp only: le_floor_iff)
  also have "\<dots> \<le> round_half_even (q / pow2 (e - 52))"
    using round_half_even_bounds [of "q / pow2 (e - 52)"] by simp
  finally have "rat_of_int (2 ^ 52) \<le> of_int (round_half_even (q / pow2 (e - 52)))"
    by (simp only: of_int_le_iff)
  then have "pow2 52 * pow2 (e - 52) \<le> of_int (round_half_even (q / pow2 (e - 52))) * pow2 (e - 52)"
    using pow2_pos [of "e - 52"] by (simp add: pow2_def)
  moreover have "pow2 52 * pow2 (e - 52) = pow2 e"
    using pow2_add [of 52 "e - 52"] by simp
  moreover have "pow2 1024 \<le> pow2 e"
    using e by (rule pow2_mono)
  ultimately have "pow2 1024 \<le> of_int (round_half_even (q / pow2 (e - 52))) * pow2 (e - 52)"
    by simp
  then show ?thesis
    using qpos by (simp add: round_double_def Let_def e_def [symmetric] e' abs_of_pos)
qed

section \<open>Properties of the running statistics\<close>

lemma to_double_small_int: "\<bar>k\<bar> \<le> 2 ^ 53 \<Longrightarrow> to_double (IntNum k) = Inr (Finite (of_int k))"
  by (simp add: round_double_of_int)

lemma to_double_count:
  "n \<le> 2 ^ 53 \<Longrightarrow> to_double (IntNum (int n)) = Inr (Finite (of_nat n))"
  using to_double_small_int [of "int n"] by simp

lemma add_sample_n: "ss_n (snd (add_sample s x)) = ss_n s + 1"
  by (simp add: add_sample_def Let_def split: sum.splits)


lemma add_sample_int:
  assumes "ss_sum s = IntNum a" and "ss_sum_of_squares s = IntNum b"
  shows "\<exists>s1. add_sample s (IntNum k) = (None, s1) \<and> ss_sum s1 = IntNum (a + k)
            \<and> ss_sum_of_squares s1 = IntNum (b + k * k)"
  using assms by (simp add: add_sample_def Let_def)


lemma mean_of_float_sum:
  assumes "1 \<le> ss_n s" and "ss_n s \<le> 2 ^ 53" and "to_double (ss_sum s) = Inr (Finite f)"
  shows "get_mean s = Inr (Some (FloatNum (round_double (f / of_nat (ss_n s)))))"
proof -
  have c: "to_double (IntNum (int (ss_n s))) = Inr (Finite (of_nat (ss_n s)))"
    using assms(2) by (rule to_double_count)
  have z: "(of_nat (ss_n s) :: rat) \<noteq> 0"
    using assms(1) by simp
  have d: "py_div (FloatNum (Finite f)) (IntNum (int (ss_n s)))
             = Inr (FloatNum (round_double (f / of_nat (ss_n s))))"
    using z by (simp add: float_op_def c del: to_double.simps(1))
  show ?thesis
    using assms(1) by (simp add: get_mean_def py_float_def assms(3) d del: py_div.simps)
qed

lemma pop_variance_single:
  assumes n: "ss_n s = 1" and sm: "to_double (ss_sum s) = Inr (Finite a)"
    and id: "round_double a = Finite a"
    and sq: "to_double (ss_sum_of_squares s) = Inr (round_double (a * a))"
  shows "get_pop_variance s =
           Inr (Some (FloatNum (if round_double (a * a) = PosInf then NaN else Finite 0)))"
proof -
  have one: "to_double (IntNum 1) = Inr (Finite 1)"
    using to_double_small_int [of 1] by simp
  have m: "get_mean s = Inr (Some (FloatNum (Finite a)))"
    using mean_of_float_sum [of s a] n sm id by simp
  have p: "py_mul (FloatNum (Finite a)) (ss_sum s) = Inr (FloatNum (round_double (a * a)))"
    by (simp add: float_op_def sm)
  show ?thesis
  proof (cases "round_double (a * a)")
    case (Finite y)
    have d: "py_sub (ss_sum_of_squares s) (FloatNum (Finite y)) = Inr (FloatNum (Finite 0))"
      by (cases "ss_sum_of_squares s")
        (use sq Finite in \<open>simp_all add: float_op_def fsub_def round_double_0
          split: pyfloat.splits\<close>)
    have q: "py_div (FloatNum (Finite 0)) (IntNum 1) = Inr (FloatNum (Finite 0))"
      by (simp add: float_op_def one round_double_0 del: to_double.simps(1))
    show ?thesis
      by (simp add: get_pop_variance_def n m p Finite d q
          del: py_mul.simps py_sub.simps py_div.simps to_double.simps)
  next
    case PosInf
    have d: "py_sub (ss_sum_of_squares s) (FloatNum PosInf) = Inr (FloatNum NaN)"
      by (cases "ss_sum_of_squares s")
        (use sq PosInf in \<open>simp_all add: float_op_def fsub_def split: pyfloat.splits\<close>)
    have q: "py_div (FloatNum NaN) (IntNum 1) = Inr (FloatNum NaN)"
      by (simp add: float_op_def one del: to_double.simps(1))
    show ?thesis
      by (simp add: get_pop_variance_def n m p PosInf d q
          del: py_mul.simps py_sub.simps py_div.simps to_double.simps)
  next
    case NegInf
    with round_double_square_not_NegInf [of a] show ?thesis by simp
  next
    case NaN
    with round_double_not_NaN [of "a * a"] show ?thesis by simp
  qed
qed


lemma init_fields:
  "ss_n (init_summarizer nm) = 0"
  "ss_sum (init_summarizer nm) = IntNum 0"
  "ss_sum_of_squares (init_summarizer nm) = IntNum 0"
  by (simp_all add: init_summarizer_def)

lemma single_int_sample:
  "\<exists>s. update_samples (init_summarizer nm) [IntNum k] = (None, s)
     \<and> ss_n s = 1 \<and> ss_sum s = IntNum k \<and> ss_sum_of_squares s = IntNum (k * k)"
proof -
  from add_sample_int [OF init_fields(2) init_fields(3), of nm k] obtain s
    where s: "add_sample (init_summarizer nm) (IntNum k) = (None, s)" "ss_sum s = IntNum k"
      "ss_sum_of_squares s = IntNum (k * k)"
    by auto
  from add_sample_n [of "init_summarizer nm" "IntNum k"] s(1) have "ss_n s = 1"
    by (simp add: init_fields)
  with s show ?thesis by simp
qed

lemma single_float_sample:
  assumes "round_double q = Finite q"
  shows "\<exists>s. update_samples (init_summarizer nm) [FloatNum (Finite q)] = (None, s)
     \<and> ss_n s = 1 \<and> ss_sum s = FloatNum (Finite q)
     \<and> to_double (ss_sum_of_squares s) = Inr (round_double (q * q))"
proof -
  have zero: "to_double (IntNum 0) = Inr (Finite 0)"
    using to_double_small_int [of 0] by simp
  have sm: "py_add (IntNum 0) (FloatNum (Finite q)) = Inr (FloatNum (Finite q))"
    by (simp add: float_op_def zero assms del: to_double.simps(1))
  have xx: "py_mul (FloatNum (Finite q)) (FloatNum (Finite q)) = Inr (FloatNum (round_double (q * q)))"
    by (simp add: float_op_def)
  have "fadd (Finite 0) (round_double (q * q)) = round_double (q * q)"
  proof (cases "round_double (q * q)")
    case (Finite y)
    with round_double_idem [OF Finite] show ?thesis by simp
  qed simp_all
  then have sq: "py_add (IntNum 0) (FloatNum (round_double (q * q)))
                   = Inr (FloatNum (round_double (q * q)))"
    by (simp add: float_op_def zero del: to_double.simps(1))
  show ?thesis
    by (simp add: add_sample_def Let_def init_fields sm xx sq
        del: py_add.simps py_mul.simps)
qed


text \<open>
  C2, as stated, fails on Python's numbers. One float sample \<open>2.0**600\<close>: its square
  overflows to infinity, \<open>inf - inf\<close> is NaN, and the population variance is NaN, not
  0. One int sample \<open>10**400\<close>: \<open>float(self._sum)\<close> raises \<open>OverflowError\<close>, so
  the mean is not the sum divided by \<open>n\<close>.
\<close>

theorem float_arithmetic_counterexample:
  "fst (update_samples (init_summarizer ''s'') [FloatNum (Finite (2 ^ 600))]) = None
   \<and> get_pop_variance (snd (update_samples (init_summarizer ''s'') [FloatNum (Finite (2 ^ 600))]))
       = Inr (Some (FloatNum NaN))
   \<and> fst (update_samples (init_summarizer ''s'') [IntNum (10 ^ 400)]) = None
   \<and> get_mean (snd (update_samples (init_summarizer ''s'') [IntNum (10 ^ 400)]))
       = Inl OverflowError"
proof -
  have rep: "round_double (2 ^ 600) = Finite (2 ^ 600)"
    using round_double_representable [of 1 600 "2 ^ 600"] by (simp add: pow2_def)
  have ovf: "round_double (2 ^ 600 * 2 ^ 600) = PosInf"
    by (rule round_double_overflow) (simp add: pow2_def)
  from single_float_sample [OF rep, of "''s''"] obtain s
    where s: "update_samples (init_summarizer ''s'') [FloatNum (Finite (2 ^ 600))] = (None, s)"
      "ss_n s = 1" "ss_sum s = FloatNum (Finite (2 ^ 600))"
      "to_double (ss_sum_of_squares s) = Inr (round_double (2 ^ 600 * 2 ^ 600))"
    by blast
  have "to_double (ss_sum s) = Inr (Finite (2 ^ 600))"
    by (simp add: s(3))
  from pop_variance_single [OF s(2) this rep s(4)] ovf
  have pv: "get_pop_variance s = Inr (Some (FloatNum NaN))"
    by simp
  from single_int_sample [of "''s''" "10 ^ 400"] obtain t
    where t: "update_samples (init_summarizer ''s'') [IntNum (10 ^ 400)] = (None, t)"
      "ss_n t = 1" "ss_sum t = IntNum (10 ^ 400)"
    by blast
  have "round_double (rat_of_int (10 ^ 400)) = PosInf"
    by (rule round_double_overflow) (simp add: pow2_def)
  then have m: "get_mean t = Inl OverflowError"
    by (simp add: get_mean_def py_float_def t(2) t(3))
  show ?thesis
    by (simp only: s(1) t(1) fst_conv snd_conv pv m)
qed



lemma fresh_min_max:
  "get_min (init_summarizer nm) = None \<and> get_max (init_summarizer nm) = None"
  by (simp add: get_min_def get_max_def init_summarizer_def)

text \<open>
  C4. The claim says the minimum is the least sample added and the maximum the greatest.
  \<open>add_sample\<close> tests \<open>not self._min\<close>, which is also true when the stored minimum is
  zero, so a zero extreme is overwritten by the next sample: after the samples 0, 5 the
  minimum is 5, and after -5, 0, -1 the maximum is -1.
\<close>

theorem zero_extreme_overwritten:
  "fst (update_samples (init_summarizer ''s'') [IntNum 0, IntNum 5]) = None
   \<and> get_min (snd (update_samples (init_summarizer ''s'') [IntNum 0, IntNum 5])) = Some (IntNum 5)
   \<and> Min (set [0, 5 :: int]) = 0
   \<and> fst (update_samples (init_summarizer ''s'') [IntNum (- 5), IntNum 0, IntNum (- 1)]) = None
   \<and> get_max (snd (update_samples (init_summarizer ''s'') [IntNum (- 5), IntNum 0, IntNum (- 1)]))
       = Some (IntNum (- 1))
   \<and> Max (set [- 5, 0, - 1 :: int]) = 0"
  by (simp add: get_min_def get_max_def add_sample_def init_summarizer_def py_not_def)

section \<open>Properties of the header classification\<close>

text \<open>
  C7. With the default pattern sets, the header PRI.t.1, PRI.t.2, pi.1, wattTheta.1,
  PRI.numTauClass has parameter indices 0 and 1, stat indices 2 and 3 and dummy index 4.
\<close>

theorem default_patterns_example:
  "get_parameter_indices
     [''PRI.t.1'', ''PRI.t.2'', ''pi.1'', ''wattTheta.1'', ''PRI.numTauClass'']
     PARAMETER_PATTERNS = [0, 1]
   \<and> get_stat_indices
     [''PRI.t.1'', ''PRI.t.2'', ''pi.1'', ''wattTheta.1'', ''PRI.numTauClass'']
     DEFAULT_STAT_PATTERNS = [2, 3]
   \<and> get_dummy_indices
     [''PRI.t.1'', ''PRI.t.2'', ''pi.1'', ''wattTheta.1'', ''PRI.numTauClass'']
     DUMMY_PATTERNS = [4]"
  by code_simp



text \<open>
  C9. The \<open>dummy_patterns\<close> argument of \<open>prior_for_msreject\<close> has no effect: two calls
  that differ in it alone write the same output and return the same header list.
\<close>

theorem dummy_patterns_ignored:
  "prior_for_msreject in_file stat_patterns parameter_patterns dummy_patterns include_header =
   prior_for_msreject in_file stat_patterns parameter_patterns dummy_patterns' include_header"
  unfolding prior_for_msreject_def msreject_indices_def by (rule refl)

section \<open>Properties of the workers\<close>

lemma lookup_global_send_error: "lookup_global ''send_error'' = Inl (NameError ''send_error'')"
  by code_simp

lemma lookup_global_e: "lookup_global ''e'' = Inl (NameError ''e'')"
  by code_simp


text \<open>
  C1. The claim says a non-zero exit code makes \<open>Worker.run\<close> raise a
  \<open>WorkerExecutionError\<close> carrying the process name, the PID and the captured error
  stream. The statement before the \<open>raise\<close> calls \<open>send_error\<close> as a bare name, which
  is bound nowhere, so the exception that leaves \<open>run\<close> is a \<open>NameError\<close>: here for a
  process that exits with code 1 after writing "boom" to its error stream. Nothing is
  queued and the command is not run again.
\<close>

theorem run_failure_is_name_error:
  "run \<lparr>name = ''Worker-1'', pid = Some 4242, temp_fs = TempFileSystem ''/tmp'',
         log_sink = [], queue = [], stdout_path = None, stderr_path = None,
         cmd = [''msbayes.pl''], finished = False, subprocess_exit_code = None\<rparr>
       \<lparr>exit_code = 1, stdout_data = [], stderr_data = ''boom''\<rparr>
   = (Some (NameError ''send_error''),
      \<lparr>name = ''Worker-1'', pid = Some 4242, temp_fs = TempFileSystem ''/tmp'',
         log_sink = [(''info'', Format ''{0} ({1}): {2}'' [Str ''Worker-1'', Num 4242,
             Format (''Starting process with following command:'' @ [newline, tab] @ ''{0}'')
               [Str ''msbayes.pl'']])],
         queue = [], stdout_path = None, stderr_path = None,
         cmd = [''msbayes.pl''], finished = False, subprocess_exit_code = None\<rparr>)"
  by (simp add: run_def lookup_global_send_error send_info_def send_msg_def pid_arg_def)



text \<open>
  C10, as stated, fails: without a \<open>TempFileSystem\<close> among the keyword arguments the
  base initialiser raises a \<open>ValueError\<close> before \<open>self.exe_path = e\<close> is reached.
\<close>

theorem msreject_init_counterexample:
  "fst (MsRejectWorker_init (PyStr ''msreject'') (PyStr ''prior.txt'') (PyStr ''out.txt'')
          (PyInt 1) PyNone
          \<lparr>kw_temp_fs = None, kw_queue = None, kw_stdout_path = None, kw_stderr_path = None\<rparr>
          ''MsRejectWorker-1'' \<lparr>cls_total = 0, cls_count = 0\<rparr>)
   = Inl (ValueError (Str ''All workers require a TempFileSystem at initiation''))"
  by (simp add: MsRejectWorker_init_def Worker_init_def)

text \<open>
  C10, amended. Constructing an \<open>MsRejectWorker\<close> raises for every combination of
  arguments, so no instance is ever created: a \<open>NameError\<close> for the unbound name \<open>e\<close>
  when \<open>temp_fs\<close> is a \<open>TempFileSystem\<close>, and the \<open>ValueError\<close> of the base
  initialiser otherwise.
\<close>

theorem msreject_init_always_raises:
  "fst (MsRejectWorker_init exe_path_arg prior_path_arg out_path_arg tolerance_arg stats_arg
          kw process_name cls)
   = Inl (case kw_temp_fs kw of
            Some (TempFileSystem d) \<Rightarrow> NameError ''e''
          | _ \<Rightarrow> ValueError (Str ''All workers require a TempFileSystem at initiation''))"
  by (simp add: MsRejectWorker_init_def Worker_init_def lookup_global_e Let_def
      split: option.splits pyobject.splits)

section \<open>Properties of the merge of the simulated observed data\<close>

text \<open>
  C6. The loop raises exactly when the data-row count of some merged file differs from
  \<open>reps\<close>, and it runs to its end, with every config merged, exactly when every count
  equals \<open>reps\<close>.
\<close>

theorem merge_raises_iff_count_differs:
  "isl (merge_simulated_observed mpf lc reps obs fs)
     = list_ex (\<lambda>n. n \<noteq> reps) (merged_counts mpf lc obs fs)
   \<and> (merge_simulated_observed mpf lc reps obs fs = Inr (merged_through mpf obs fs))
     = list_all (\<lambda>n. n = reps) (merged_counts mpf lc obs fs)"
proof (induction obs arbitrary: fs)
  case Nil
  show ?case by simp
next
  case (Cons a obs)
  obtain cfg prior_paths observed_path where a: "a = (cfg, prior_paths, observed_path)"
    by (cases a) auto
  show ?case
    using Cons.IH [of "mpf prior_paths observed_path fs"]
    by (simp add: a Let_def)
qed

text \<open>
  The merge scenario of the spec, on a file system that records the number of data rows
  of each path: three prior files of five rows merge into fifteen, which passes for 15
  replicates and raises for 20.
\<close>

theorem merge_raises_iff_count_differs_witness:
  "merge_simulated_observed (\<lambda>ps p fs. fs(p := sum_list (map fs ps))) (\<lambda>p fs. fs p) 15
     [(''cfg-1'', [''prior-1'', ''prior-2'', ''prior-3''], ''observed-1.txt'')]
     ((\<lambda>p. 0)(''prior-1'' := 5, ''prior-2'' := 5, ''prior-3'' := 5))
   = Inr (merged_through (\<lambda>ps p fs. fs(p := sum_list (map fs ps)))
            [(''cfg-1'', [''prior-1'', ''prior-2'', ''prior-3''], ''observed-1.txt'')]
            ((\<lambda>p. 0)(''prior-1'' := 5, ''prior-2'' := 5, ''prior-3'' := 5)))
   \<and> isl (merge_simulated_observed (\<lambda>ps p fs. fs(p := sum_list (map fs ps))) (\<lambda>p fs. fs p) 20
     [(''cfg-1'', [''prior-1'', ''prior-2'', ''prior-3''], ''observed-1.txt'')]
     ((\<lambda>p. 0)(''prior-1'' := 5, ''prior-2'' := 5, ''prior-3'' := 5)))"
  using merge_raises_iff_count_differs
      [of "\<lambda>ps p fs. fs(p := sum_list (map fs ps))" "\<lambda>p fs. fs p" 15
          "[(''cfg-1'', [''prior-1'', ''prior-2'', ''prior-3''], ''observed-1.txt'')]"
          "(\<lambda>p. 0)(''prior-1'' := 5, ''prior-2'' := 5, ''prior-3'' := 5)"]
    merge_raises_iff_count_differs
      [of "\<lambda>ps p fs. fs(p := sum_list (map fs ps))" "\<lambda>p fs. fs p" 20
          "[(''cfg-1'', [''prior-1'', ''prior-2'', ''prior-3''], ''observed-1.txt'')]"
          "(\<lambda>p. 0)(''prior-1'' := 5, ''prior-2'' := 5, ''prior-3'' := 5)"]
  by simp

section \<open>Properties of the worker pool\<close>

text \<open>
  A step keeps the bound on the live set and moves workers between the four lists
  without losing or duplicating any.
\<close>

lemma pool_step_invariant:
  assumes "pool_step K p ev = Some p1"
    and "length (live p) \<le> K"
  shows "length (live p1) \<le> K
    \<and> mset (waiting p1) + mset (live p1) + mset (completed p1) + mset (raised p1)
      = mset (waiting p) + mset (live p) + mset (completed p) + mset (raised p)"
proof (cases ev)
  case Admit
  with assms show ?thesis
    by (auto split: list.splits if_splits)
next
  case (Completes w)
  with assms show ?thesis
    by (auto split: if_splits simp add: length_remove1)
next
  case (Raises w)
  with assms show ?thesis
    by (auto split: if_splits simp add: length_remove1)
qed

lemma pool_run_invariant:
  assumes "pool_run K p evs = Some q"
    and "length (live p) \<le> K"
  shows "length (live q) \<le> K
    \<and> mset (waiting q) + mset (live q) + mset (completed q) + mset (raised q)
      = mset (waiting p) + mset (live p) + mset (completed p) + mset (raised p)"
  using assms
proof (induction evs arbitrary: p)
  case Nil
  then show ?case by simp
next
  case (Cons ev evs)
  from Cons.prems(1) obtain p1 where s: "pool_step K p ev = Some p1"
    and r: "pool_run K p1 evs = Some q"
    by (auto split: option.splits)
  from pool_step_invariant [OF s Cons.prems(2)] Cons.IH [OF r] show ?case
    by simp
qed

text \<open>With a positive bound the pool can always run to its end.\<close>

lemma run_workers_can_return:
  assumes "0 < K"
  shows "pool_run K \<lparr>waiting = ws, live = [], completed = cs, raised = rs\<rparr>
           (concat (map (\<lambda>w. [Admit, Completes w]) ws))
         = Some \<lparr>waiting = [], live = [], completed = cs @ ws, raised = rs\<rparr>"
  using assms by (induction ws arbitrary: cs) simp_all

text \<open>
  C5. In every state the pool reaches from the submitted workers, under any schedule of
  admissions, completions and failures, at most \<open>K\<close> workers are live; and once the pool
  is done, the workers that completed or raised are exactly the submitted ones.
\<close>

theorem run_workers_bound:
  assumes "pool_run K (run_workers_init workers) evs = Some p"
  shows "length (live p) \<le> K
    \<and> (returned p \<longrightarrow> mset (completed p) + mset (raised p) = mset workers)"
  using pool_run_invariant [OF assms] by (auto simp add: run_workers_init_def returned_def)

theorem run_workers_bound_witness:
  "pool_run 2 (run_workers_init [1, 2, 3 :: nat])
        [Admit, Admit, Completes 1, Admit, Raises 2, Completes 3]
      = Some \<lparr>waiting = [], live = [], completed = [1, 3], raised = [2]\<rparr>
   \<and> length (live \<lparr>waiting = [], live = [], completed = [1, 3 :: nat], raised = [2]\<rparr>) \<le> 2
   \<and> returned \<lparr>waiting = [], live = [], completed = [1, 3 :: nat], raised = [2]\<rparr>
   \<and> mset [1, 3 :: nat] + mset [2] = mset [1, 2, 3]"
proof -
  have r: "pool_run 2 (run_workers_init [1, 2, 3 :: nat])
        [Admit, Admit, Completes 1, Admit, Raises 2, Completes 3]
      = Some \<lparr>waiting = [], live = [], completed = [1, 3], raised = [2]\<rparr>"
    by (simp add: run_workers_init_def)
  have d: "returned \<lparr>waiting = [], live = [], completed = [1, 3 :: nat], raised = [2]\<rparr>"
    by (simp add: returned_def)
  from run_workers_bound [OF r] d r show ?thesis
    by simp
qed

end
